theory Spec2Isabelle
  imports Complex_Main
begin

section \<open>Result values of the host language\<close>

text \<open>
  The evaluator of \<^verbatim>\<open>abstract_syntax_tree.ts\<close> computes with the values of its host
  language. \<^verbatim>\<open>ExpressionResult\<close> is
  \<^verbatim>\<open>number | boolean | string | Function | null | ExpressionResult[]\<close>; at run time the
  value \<^verbatim>\<open>undefined\<close> occurs as well (an array read out of range yields it).

  A \<^verbatim>\<open>number\<close> is a double. The finite case below carries the exact rational value of
  the double, and the arithmetic on it is exact: rounding to 53 bits and the sign of zero
  are left out, so the arithmetic of the model and of the source agree wherever every
  intermediate result is exactly representable (all integers of magnitude up to \<open>2^53\<close>).

  Arrays and callables are objects: \<^verbatim>\<open>===\<close> compares them by identity. A list value
  therefore carries the identity of its array next to its elements, and a callable is
  just its identity.
\<close>

datatype number = Fin rat | NaN | PosInf | NegInf

datatype ExpressionResult =
    VNumber number
  | VBoolean bool
  | VString string
  | VFunction nat
  | VNull
  | VUndefined
  | VList nat "ExpressionResult list"

text \<open>
  \<^verbatim>\<open>Environment\<close> is \<^verbatim>\<open>{ [key: string]: ExpressionResult }\<close>, an object used as a
  dictionary. The model is the map of the object's own keys: a name that the object
  would inherit from its prototype is a key the map does not have.
\<close>

type_synonym Environment = "string \<rightharpoonup> ExpressionResult"

text \<open>Every \<^verbatim>\<open>throw new Error(...)\<close> of the source, and an exception raised by a callee.\<close>

datatype error =
    MethodNotImplemented
  | FactorialNotDefined ExpressionResult
  | LeftSideMustBeVariable
  | VariableNotDefined string
  | NotAnArray ExpressionResult
  | IndexNotANumber ExpressionResult
  | FromIndexNotANumber ExpressionResult
  | ToIndexNotANumber ExpressionResult
  | NotAFunction ExpressionResult
  | HostError string

text \<open>
  What the run-time system and the caller supply, and this repository does not define:
  the text of a number and of a callable, the number a string denotes, the callables
  themselves (a call returns a value or throws), and the approximation \<^verbatim>\<open>Math.pow\<close>
  returns where the exact power is not rational.
\<close>

record host =
  number_to_string :: "number \<Rightarrow> string"
  string_to_number :: "string \<Rightarrow> number"
  function_to_string :: "nat \<Rightarrow> string"
  function_call :: "nat \<Rightarrow> ExpressionResult list \<Rightarrow> error + ExpressionResult"
  pow_approx :: "rat \<Rightarrow> rat \<Rightarrow> number"

subsection \<open>Arithmetic on numbers\<close>

fun number_neg :: "number \<Rightarrow> number" where
  "number_neg (Fin a) = Fin (- a)"
| "number_neg NaN = NaN"
| "number_neg PosInf = NegInf"
| "number_neg NegInf = PosInf"

fun number_add :: "number \<Rightarrow> number \<Rightarrow> number" where
  "number_add NaN y = NaN"
| "number_add x NaN = NaN"
| "number_add (Fin a) (Fin b) = Fin (a + b)"
| "number_add PosInf NegInf = NaN"
| "number_add NegInf PosInf = NaN"
| "number_add PosInf y = PosInf"
| "number_add NegInf y = NegInf"
| "number_add (Fin a) y = y"

definition number_sub :: "number \<Rightarrow> number \<Rightarrow> number" where
  "number_sub x y = number_add x (number_neg y)"

fun number_sign :: "number \<Rightarrow> int" where
  "number_sign (Fin a) = (if a = 0 then 0 else if 0 < a then 1 else - 1)"
| "number_sign NaN = 0"
| "number_sign PosInf = 1"
| "number_sign NegInf = - 1"

fun number_mul :: "number \<Rightarrow> number \<Rightarrow> number" where
  "number_mul NaN y = NaN"
| "number_mul x NaN = NaN"
| "number_mul (Fin a) (Fin b) = Fin (a * b)"
| "number_mul x y =
     (if number_sign x * number_sign y = 0 then NaN
      else if 0 < number_sign x * number_sign y then PosInf else NegInf)"

fun number_div :: "number \<Rightarrow> number \<Rightarrow> number" where
  "number_div NaN y = NaN"
| "number_div x NaN = NaN"
| "number_div (Fin a) (Fin b) =
     (if b = 0 then (if a = 0 then NaN else if 0 < a then PosInf else NegInf)
      else Fin (a / b))"
| "number_div (Fin a) y = Fin 0"
| "number_div x (Fin b) = (if (0 < number_sign x) = (0 \<le> b) then PosInf else NegInf)"
| "number_div x y = NaN"

definition trunc :: "rat \<Rightarrow> int" where
  "trunc a = (if 0 \<le> a then \<lfloor>a\<rfloor> else \<lceil>a\<rceil>)"

fun number_mod :: "number \<Rightarrow> number \<Rightarrow> number" where
  "number_mod NaN y = NaN"
| "number_mod x NaN = NaN"
| "number_mod (Fin a) (Fin b) =
     (if b = 0 then NaN else Fin (a - b * of_int (trunc (a / b))))"
| "number_mod (Fin a) y = Fin a"
| "number_mod x y = NaN"

definition is_integer :: "rat \<Rightarrow> bool" where
  "is_integer a \<longleftrightarrow> a = of_int \<lfloor>a\<rfloor>"

definition is_odd_integer :: "rat \<Rightarrow> bool" where
  "is_odd_integer a \<longleftrightarrow> is_integer a \<and> odd \<lfloor>a\<rfloor>"

text \<open>\<^verbatim>\<open>Math.pow(base, exponent)\<close>, case by case as the language standard lists them.\<close>

fun math_pow :: "host \<Rightarrow> number \<Rightarrow> number \<Rightarrow> number" where
  "math_pow h x NaN = NaN"
| "math_pow h NaN y = (if y = Fin 0 then Fin 1 else NaN)"
| "math_pow h PosInf y = (if y = Fin 0 then Fin 1 else if 0 < number_sign y then PosInf else Fin 0)"
| "math_pow h NegInf (Fin b) =
     (if b = 0 then Fin 1
      else if 0 < b then (if is_odd_integer b then NegInf else PosInf)
      else Fin 0)"
| "math_pow h NegInf PosInf = PosInf"
| "math_pow h NegInf NegInf = Fin 0"
| "math_pow h (Fin a) PosInf =
     (if 1 < \<bar>a\<bar> then PosInf else if \<bar>a\<bar> = 1 then NaN else Fin 0)"
| "math_pow h (Fin a) NegInf =
     (if 1 < \<bar>a\<bar> then Fin 0 else if \<bar>a\<bar> = 1 then NaN else PosInf)"
| "math_pow h (Fin a) (Fin b) =
     (if b = 0 then Fin 1
      else if a = 0 then (if 0 < b then Fin 0 else PosInf)
      else if is_integer b then
        (if 0 < b then Fin (a ^ nat \<lfloor>b\<rfloor>) else Fin (1 / a ^ nat (- \<lfloor>b\<rfloor>)))
      else if a < 0 then NaN
      else pow_approx h a b)"

text \<open>
  The comparison behind \<^verbatim>\<open><\<close>, \<^verbatim>\<open>>\<close>, \<^verbatim>\<open><=\<close> and \<^verbatim>\<open>>=\<close>: \<open>None\<close> is the
  standard's \<^verbatim>\<open>undefined\<close>, the answer whenever an operand is \<^verbatim>\<open>NaN\<close>.
\<close>

fun number_less_than :: "number \<Rightarrow> number \<Rightarrow> bool option" where
  "number_less_than NaN y = None"
| "number_less_than x NaN = None"
| "number_less_than (Fin a) (Fin b) = Some (a < b)"
| "number_less_than x NegInf = Some False"
| "number_less_than PosInf y = Some False"
| "number_less_than NegInf y = Some True"
| "number_less_than x PosInf = Some True"

definition number_equal :: "number \<Rightarrow> number \<Rightarrow> bool" where
  "number_equal x y \<longleftrightarrow> x \<noteq> NaN \<and> y \<noteq> NaN \<and> x = y"

subsection \<open>Conversions and operators\<close>

text \<open>
  The type annotations of the source (\<^verbatim>\<open>as number\<close>, \<^verbatim>\<open>as boolean\<close>) are erased when
  it is compiled: at run time an operator receives whatever the operand resolved to and
  converts it as the language prescribes. The conversions follow.
\<close>

fun to_string :: "host \<Rightarrow> ExpressionResult \<Rightarrow> string"
  and join :: "host \<Rightarrow> ExpressionResult list \<Rightarrow> string"
where
  "to_string h (VNumber x) = number_to_string h x"
| "to_string h (VBoolean b) = (if b then ''true'' else ''false'')"
| "to_string h (VString s) = s"
| "to_string h (VFunction f) = function_to_string h f"
| "to_string h VNull = ''null''"
| "to_string h VUndefined = ''undefined''"
| "to_string h (VList r xs) = join h xs"
| "join h [] = []"
| "join h (x # xs) =
     (if x = VNull \<or> x = VUndefined then [] else to_string h x)
     @ (if xs = [] then [] else '','' @ join h xs)"

definition to_primitive :: "host \<Rightarrow> ExpressionResult \<Rightarrow> ExpressionResult" where
  "to_primitive h v =
     (case v of
        VList r xs \<Rightarrow> VString (to_string h v)
      | VFunction f \<Rightarrow> VString (to_string h v)
      | _ \<Rightarrow> v)"

definition to_number :: "host \<Rightarrow> ExpressionResult \<Rightarrow> number" where
  "to_number h v =
     (case to_primitive h v of
        VNumber x \<Rightarrow> x
      | VBoolean b \<Rightarrow> (if b then Fin 1 else Fin 0)
      | VString s \<Rightarrow> string_to_number h s
      | VNull \<Rightarrow> Fin 0
      | _ \<Rightarrow> NaN)"

definition to_boolean :: "ExpressionResult \<Rightarrow> bool" where
  "to_boolean v =
     (case v of
        VNumber x \<Rightarrow> x \<noteq> Fin 0 \<and> x \<noteq> NaN
      | VBoolean b \<Rightarrow> b
      | VString s \<Rightarrow> s \<noteq> []
      | VNull \<Rightarrow> False
      | VUndefined \<Rightarrow> False
      | _ \<Rightarrow> True)"

definition is_VString :: "ExpressionResult \<Rightarrow> bool" where
  "is_VString v = (case v of VString s \<Rightarrow> True | _ \<Rightarrow> False)"

text \<open>\<^verbatim>\<open>a + b\<close>: concatenation as soon as one operand is a string, addition otherwise.\<close>

definition js_add :: "host \<Rightarrow> ExpressionResult \<Rightarrow> ExpressionResult \<Rightarrow> ExpressionResult" where
  "js_add h a b =
     (let pa = to_primitive h a; pb = to_primitive h b
      in if is_VString pa \<or> is_VString pb then VString (to_string h pa @ to_string h pb)
         else VNumber (number_add (to_number h pa) (to_number h pb)))"

fun string_less_than :: "string \<Rightarrow> string \<Rightarrow> bool" where
  "string_less_than xs [] = False"
| "string_less_than [] (y # ys) = True"
| "string_less_than (x # xs) (y # ys) =
     ((of_char x :: nat) < of_char y \<or> (x = y \<and> string_less_than xs ys))"

definition less_than :: "host \<Rightarrow> ExpressionResult \<Rightarrow> ExpressionResult \<Rightarrow> bool option" where
  "less_than h a b =
     (case (to_primitive h a, to_primitive h b) of
        (VString x, VString y) \<Rightarrow> Some (string_less_than x y)
      | (pa, pb) \<Rightarrow> number_less_than (to_number h pa) (to_number h pb))"

definition js_lt :: "host \<Rightarrow> ExpressionResult \<Rightarrow> ExpressionResult \<Rightarrow> bool" where
  "js_lt h a b \<longleftrightarrow> less_than h a b = Some True"

definition js_gt :: "host \<Rightarrow> ExpressionResult \<Rightarrow> ExpressionResult \<Rightarrow> bool" where
  "js_gt h a b \<longleftrightarrow> less_than h b a = Some True"

definition js_le :: "host \<Rightarrow> ExpressionResult \<Rightarrow> ExpressionResult \<Rightarrow> bool" where
  "js_le h a b \<longleftrightarrow> less_than h b a = Some False"

definition js_ge :: "host \<Rightarrow> ExpressionResult \<Rightarrow> ExpressionResult \<Rightarrow> bool" where
  "js_ge h a b \<longleftrightarrow> less_than h a b = Some False"

text \<open>\<^verbatim>\<open>a === b\<close>: no conversion; objects are equal when they are the same object.\<close>

fun strict_equals :: "ExpressionResult \<Rightarrow> ExpressionResult \<Rightarrow> bool" where
  "strict_equals (VNumber x) (VNumber y) = number_equal x y"
| "strict_equals (VBoolean x) (VBoolean y) = (x = y)"
| "strict_equals (VString x) (VString y) = (x = y)"
| "strict_equals (VFunction f) (VFunction g) = (f = g)"
| "strict_equals VNull VNull = True"
| "strict_equals VUndefined VUndefined = True"
| "strict_equals (VList r xs) (VList r' ys) = (r = r')"
| "strict_equals a b = False"

text \<open>
  \<^verbatim>\<open>list[index]\<close> with a number for index: the element when the index is one of the
  array's positions, \<^verbatim>\<open>undefined\<close> for every other number. A position of a sparse
  array that holds no element is an element \<open>VUndefined\<close> of the list: reading it yields
  \<^verbatim>\<open>undefined\<close> as well.
\<close>

definition array_get :: "ExpressionResult list \<Rightarrow> number \<Rightarrow> ExpressionResult" where
  "array_get xs index =
     (case index of
        Fin a \<Rightarrow> (if is_integer a \<and> 0 \<le> a \<and> nat \<lfloor>a\<rfloor> < length xs then xs ! nat \<lfloor>a\<rfloor>
                  else VUndefined)
      | _ \<Rightarrow> VUndefined)"

text \<open>\<^verbatim>\<open>list.slice(from_index, to_index)\<close>: both bounds are truncated and clamped.\<close>

definition relative_index :: "nat \<Rightarrow> number \<Rightarrow> nat" where
  "relative_index len x =
     (case x of
        NaN \<Rightarrow> 0
      | PosInf \<Rightarrow> len
      | NegInf \<Rightarrow> 0
      | Fin a \<Rightarrow> (if trunc a < 0 then nat (max (int len + trunc a) 0)
                  else nat (min (trunc a) (int len))))"

definition array_slice :: "ExpressionResult list \<Rightarrow> number \<Rightarrow> number \<Rightarrow> ExpressionResult list" where
  "array_slice xs from_index to_index =
     (let k = relative_index (length xs) from_index;
          final = relative_index (length xs) to_index
      in take (final - k) (drop k xs))"

section \<open>The abstract syntax tree\<close>

text \<open>
  One constructor for each class that implements \<^verbatim>\<open>Expression\<close>. The subclasses of
  \<^verbatim>\<open>UnaryOperator\<close> and of \<^verbatim>\<open>BinaryOperator\<close> inherit the fields and every method but
  \<^verbatim>\<open>resolve\<close> (and, for \<^verbatim>\<open>Assignment\<close>, \<^verbatim>\<open>freeVariables\<close>): the node records which class
  it is an instance of. The base classes can be instantiated too.
\<close>

datatype UnaryClass = UnaryOperator | Negate | Factorial | Not_op

datatype BinaryClass =
    BinaryOperator | And | Assignment | Or | Addition | Subtraction | Equality | InEquality
  | LessThen | GreaterThen | LessThenEq | GreaterThenEq | Exponentiate | Multiply | Divide
  | Modulo

datatype Expression =
    Unary UnaryClass Expression
  | Binary BinaryClass Expression Expression
  | Condition Expression Expression Expression
  | Number number
  | Boolean bool
  | Variable string
  | Index Expression Expression
  | Slice Expression Expression Expression
  | List "Expression list"
  | Apply Expression "Expression list"
  | String string

definition is_Variable :: "Expression \<Rightarrow> bool" where
  "is_Variable e = (case e of Variable x \<Rightarrow> True | _ \<Rightarrow> False)"

section \<open>Free variables\<close>

text \<open>
  \<^verbatim>\<open>freeVariables(environment)\<close> returns a \<^verbatim>\<open>Set<string>\<close>, here the list of its members
  in insertion order. The method writes into the environment it is given (in
  \<^verbatim>\<open>Assignment\<close>) and can throw, so the model returns the environment next to the
  outcome.
\<close>

definition set_add :: "string list \<Rightarrow> string \<Rightarrow> string list" where
  "set_add free_variables x = (if x \<in> set free_variables then free_variables else free_variables @ [x])"

definition add_each :: "string list \<Rightarrow> string list \<Rightarrow> string list" where
  "add_each free_variables xs = foldl set_add free_variables xs"

fun freeVariables :: "Expression \<Rightarrow> Environment \<Rightarrow> (error + string list) \<times> Environment"
  and freeVariables_each ::
    "Expression list \<Rightarrow> string list \<Rightarrow> Environment \<Rightarrow> (error + string list) \<times> Environment"
where
  "freeVariables (Unary c expression) env = freeVariables expression env"
| "freeVariables (Binary c left_expression right_expression) env =
     (if c = Assignment then
        (if \<not> is_Variable left_expression then (Inl LeftSideMustBeVariable, env)
         else
           (case freeVariables left_expression Map.empty of
              (Inl e, scratch) \<Rightarrow> (Inl e, env)
            | (Inr names, scratch) \<Rightarrow>
                freeVariables right_expression
                  (foldl (\<lambda>environment free_variable. environment(free_variable \<mapsto> VNull))
                     env names)))
      else
        (case freeVariables left_expression env of
           (Inl e, env1) \<Rightarrow> (Inl e, env1)
         | (Inr left, env1) \<Rightarrow>
             (case freeVariables right_expression env1 of
                (Inl e, env2) \<Rightarrow> (Inl e, env2)
              | (Inr right, env2) \<Rightarrow> (Inr (add_each (add_each [] left) right), env2))))"
| "freeVariables (Condition condition a b) env =
     (case freeVariables condition env of
        (Inl e, env1) \<Rightarrow> (Inl e, env1)
      | (Inr xs, env1) \<Rightarrow>
          (case freeVariables a env1 of
             (Inl e, env2) \<Rightarrow> (Inl e, env2)
           | (Inr ys, env2) \<Rightarrow>
               (case freeVariables b env2 of
                  (Inl e, env3) \<Rightarrow> (Inl e, env3)
                | (Inr zs, env3) \<Rightarrow>
                    (Inr (add_each (add_each (add_each [] xs) ys) zs), env3))))"
| "freeVariables (Number n) env = (Inr [], env)"
| "freeVariables (Boolean b) env = (Inr [], env)"
| "freeVariables (Variable variable) env =
     (Inr (if variable \<in> dom env then [] else [variable]), env)"
| "freeVariables (Index list index) env =
     (case freeVariables list env of
        (Inl e, env1) \<Rightarrow> (Inl e, env1)
      | (Inr xs, env1) \<Rightarrow>
          (case freeVariables index env1 of
             (Inl e, env2) \<Rightarrow> (Inl e, env2)
           | (Inr ys, env2) \<Rightarrow> (Inr (add_each (add_each [] xs) ys), env2)))"
| "freeVariables (Slice list from_index to_index) env =
     (case freeVariables list env of
        (Inl e, env1) \<Rightarrow> (Inl e, env1)
      | (Inr xs, env1) \<Rightarrow>
          (case freeVariables from_index env1 of
             (Inl e, env2) \<Rightarrow> (Inl e, env2)
           | (Inr ys, env2) \<Rightarrow>
               (case freeVariables to_index env2 of
                  (Inl e, env3) \<Rightarrow> (Inl e, env3)
                | (Inr zs, env3) \<Rightarrow>
                    (Inr (add_each (add_each (add_each [] xs) ys) zs), env3))))"
| "freeVariables (List list) env = freeVariables_each list [] env"
| "freeVariables (Apply fn args) env =
     (case freeVariables fn env of
        (Inl e, env1) \<Rightarrow> (Inl e, env1)
      | (Inr xs, env1) \<Rightarrow> freeVariables_each args (add_each [] xs) env1)"
| "freeVariables (String s) env = (Inr [], env)"
| "freeVariables_each [] free_variables env = (Inr free_variables, env)"
| "freeVariables_each (element # elements) free_variables env =
     (case freeVariables element env of
        (Inl e, env1) \<Rightarrow> (Inl e, env1)
      | (Inr xs, env1) \<Rightarrow> freeVariables_each elements (add_each free_variables xs) env1)"

section \<open>Evaluation\<close>

text \<open>
  \<^verbatim>\<open>resolve(environment)\<close> reads and (in \<^verbatim>\<open>Assignment\<close>) writes the one environment
  object that every node of the tree receives, and creates arrays (in \<^verbatim>\<open>List\<close> and
  \<^verbatim>\<open>Slice\<close>). The state is that environment and the identity the next new array gets.
  An evaluation returns a value, throws, or runs forever (the loop of \<^verbatim>\<open>Factorial\<close>):
  \<open>None\<close> is the evaluation that does not return; a returned outcome comes with the
  state it leaves, also when it is an exception, whose earlier writes stay in the
  caller's environment.
\<close>

record store =
  environment :: Environment
  next_array :: nat

type_synonym 'a result = "((error + 'a) \<times> store) option"

definition returns :: "'a \<Rightarrow> store \<Rightarrow> 'a result" where
  "returns v s = Some (Inr v, s)"

definition throws :: "error \<Rightarrow> store \<Rightarrow> 'a result" where
  "throws e s = Some (Inl e, s)"

definition and_then :: "'a result \<Rightarrow> ('a \<Rightarrow> store \<Rightarrow> 'b result) \<Rightarrow> 'b result" where
  "and_then m f =
     (case m of
        None \<Rightarrow> None
      | Some (Inl e, s) \<Rightarrow> Some (Inl e, s)
      | Some (Inr v, s) \<Rightarrow> f v s)"

text \<open>
  The loop of \<^verbatim>\<open>Factorial.resolve\<close>,
  \<^verbatim>\<open>for (let i = 2; i <= value; i++) factorial *= i\<close>. With \<^verbatim>\<open>Infinity\<close> for value it
  never ends.
\<close>

partial_function (option) factorial_loop ::
  "host \<Rightarrow> ExpressionResult \<Rightarrow> number \<Rightarrow> number \<Rightarrow> number option"
where
  "factorial_loop h v i factorial =
     (if js_le h (VNumber i) v
      then factorial_loop h v (number_add i (Fin 1)) (number_mul factorial i)
      else Some factorial)"

declare factorial_loop.simps [code]

fun resolve :: "host \<Rightarrow> Expression \<Rightarrow> store \<Rightarrow> ExpressionResult result"
  and resolve_each :: "host \<Rightarrow> Expression list \<Rightarrow> store \<Rightarrow> ExpressionResult list result"
where
  "resolve h (Unary c expression) s =
     (case c of
        UnaryOperator \<Rightarrow> throws MethodNotImplemented s
      | Negate \<Rightarrow>
          and_then (resolve h expression s)
            (\<lambda>v. returns (VNumber (number_neg (to_number h v))))
      | Factorial \<Rightarrow>
          and_then (resolve h expression s)
            (\<lambda>v s1.
               if js_lt h v (VNumber (Fin 0)) then throws (FactorialNotDefined v) s1
               else (case factorial_loop h v (Fin 2) (Fin 1) of
                       None \<Rightarrow> None
                     | Some factorial \<Rightarrow> returns (VNumber factorial) s1))
      | Not_op \<Rightarrow>
          and_then (resolve h expression s) (\<lambda>v. returns (VBoolean (\<not> to_boolean v))))"
| "resolve h (Binary c left_expression right_expression) s =
     (case c of
        BinaryOperator \<Rightarrow> throws MethodNotImplemented s
      | And \<Rightarrow>
          and_then (resolve h left_expression s)
            (\<lambda>a s1. if to_boolean a then resolve h right_expression s1 else returns a s1)
      | Assignment \<Rightarrow>
          (if \<not> is_Variable left_expression then throws LeftSideMustBeVariable s
           else
             and_then (resolve h right_expression s)
               (\<lambda>expression_result s1.
                  (case freeVariables left_expression Map.empty of
                     (Inl e, scratch) \<Rightarrow> throws e s1
                   | (Inr names, scratch) \<Rightarrow>
                       returns expression_result
                         (s1\<lparr>environment :=
                               foldl (\<lambda>env free_variable. env(free_variable \<mapsto> expression_result))
                                 (environment s1) names\<rparr>))))
      | Or \<Rightarrow>
          and_then (resolve h left_expression s)
            (\<lambda>a s1. if to_boolean a then returns a s1 else resolve h right_expression s1)
      | Addition \<Rightarrow>
          and_then (resolve h left_expression s) (\<lambda>a s1.
          and_then (resolve h right_expression s1) (\<lambda>b.
            returns (js_add h a b)))
      | Subtraction \<Rightarrow>
          and_then (resolve h left_expression s) (\<lambda>a s1.
          and_then (resolve h right_expression s1) (\<lambda>b.
            returns (VNumber (number_sub (to_number h a) (to_number h b)))))
      | Equality \<Rightarrow>
          and_then (resolve h left_expression s) (\<lambda>a s1.
          and_then (resolve h right_expression s1) (\<lambda>b.
            returns (VBoolean (strict_equals a b))))
      | InEquality \<Rightarrow>
          and_then (resolve h left_expression s) (\<lambda>a s1.
          and_then (resolve h right_expression s1) (\<lambda>b.
            returns (VBoolean (strict_equals a b))))
      | LessThen \<Rightarrow>
          and_then (resolve h left_expression s) (\<lambda>a s1.
          and_then (resolve h right_expression s1) (\<lambda>b.
            returns (VBoolean (js_lt h a b))))
      | GreaterThen \<Rightarrow>
          and_then (resolve h left_expression s) (\<lambda>a s1.
          and_then (resolve h right_expression s1) (\<lambda>b.
            returns (VBoolean (js_gt h a b))))
      | LessThenEq \<Rightarrow>
          and_then (resolve h left_expression s) (\<lambda>a s1.
          and_then (resolve h right_expression s1) (\<lambda>b.
            returns (VBoolean (js_le h a b))))
      | GreaterThenEq \<Rightarrow>
          and_then (resolve h left_expression s) (\<lambda>a s1.
          and_then (resolve h right_expression s1) (\<lambda>b.
            returns (VBoolean (js_ge h a b))))
      | Exponentiate \<Rightarrow>
          and_then (resolve h left_expression s) (\<lambda>a s1.
          and_then (resolve h right_expression s1) (\<lambda>b.
            returns (VNumber (math_pow h (to_number h a) (to_number h b)))))
      | Multiply \<Rightarrow>
          and_then (resolve h left_expression s) (\<lambda>a s1.
          and_then (resolve h right_expression s1) (\<lambda>b.
            returns (VNumber (number_mul (to_number h a) (to_number h b)))))
      | Divide \<Rightarrow>
          and_then (resolve h left_expression s) (\<lambda>a s1.
          and_then (resolve h right_expression s1) (\<lambda>b.
            returns (VNumber (number_div (to_number h a) (to_number h b)))))
      | Modulo \<Rightarrow>
          and_then (resolve h left_expression s) (\<lambda>a s1.
          and_then (resolve h right_expression s1) (\<lambda>b.
            returns (VNumber (number_mod (to_number h a) (to_number h b))))))"
| "resolve h (Condition condition a b) s =
     and_then (resolve h condition s)
       (\<lambda>c s1. if to_boolean c then resolve h a s1 else resolve h b s1)"
| "resolve h (Number n) s = returns (VNumber n) s"
| "resolve h (Boolean b) s = returns (VBoolean b) s"
| "resolve h (Variable variable) s =
     (case environment s variable of
        None \<Rightarrow> throws (VariableNotDefined variable) s
      | Some VUndefined \<Rightarrow> throws (VariableNotDefined variable) s
      | Some v \<Rightarrow> returns v s)"
| "resolve h (Index list index) s =
     and_then (resolve h list s)
       (\<lambda>l s1.
          (case l of
             VList r xs \<Rightarrow>
               and_then (resolve h index s1)
                 (\<lambda>i s2.
                    (case i of
                       VNumber n \<Rightarrow> returns (array_get xs n) s2
                     | _ \<Rightarrow> throws (IndexNotANumber i) s2))
           | _ \<Rightarrow> throws (NotAnArray l) s1))"
| "resolve h (Slice list from_index to_index) s =
     and_then (resolve h list s)
       (\<lambda>l s1.
          (case l of
             VList r xs \<Rightarrow>
               and_then (resolve h from_index s1)
                 (\<lambda>f s2.
                    (case f of
                       VNumber m \<Rightarrow>
                         and_then (resolve h to_index s2)
                           (\<lambda>t s3.
                              (case t of
                                 VNumber n \<Rightarrow>
                                   returns (VList (next_array s3) (array_slice xs m n))
                                     (s3\<lparr>next_array := Suc (next_array s3)\<rparr>)
                               | _ \<Rightarrow> throws (ToIndexNotANumber t) s3))
                     | _ \<Rightarrow> throws (FromIndexNotANumber f) s2))
           | _ \<Rightarrow> throws (NotAnArray l) s1))"
| "resolve h (List list) s =
     and_then (resolve_each h list s)
       (\<lambda>vs s1. returns (VList (next_array s1) vs) (s1\<lparr>next_array := Suc (next_array s1)\<rparr>))"
| "resolve h (Apply fn args) s =
     and_then (resolve h fn s)
       (\<lambda>f s1.
          (case f of
             VFunction g \<Rightarrow>
               and_then (resolve_each h args s1)
                 (\<lambda>vs s2.
                    (case function_call h g vs of
                       Inl e \<Rightarrow> throws e s2
                     | Inr v \<Rightarrow> returns v s2))
           | _ \<Rightarrow> throws (NotAFunction f) s1))"
| "resolve h (String string) s = returns (VString string) s"
| "resolve_each h [] s = returns [] s"
| "resolve_each h (element # elements) s =
     and_then (resolve h element s) (\<lambda>v s1.
     and_then (resolve_each h elements s1) (\<lambda>vs.
       returns (v # vs)))"

section \<open>The parser\<close>

subsection \<open>Parser combinators\<close>

text \<open>
  \<^verbatim>\<open>parser.ts\<close> builds its grammar from the combinators of a parsing library. A parser
  reads a prefix of its input and either succeeds with a value and the rest of the input
  or fails; alternatives are tried in order and the first success is final. Strings are
  lists of characters, one for each code unit below 256.

  The grammar is recursive through \<^verbatim>\<open>lazy\<close>. The model bounds the depth of that
  recursion by a counter and keeps the parse that reaches the bound apart from a
  failure, so that it is never taken for one: with any bound, a success or a failure of
  the model is the parser's own.
\<close>

datatype abort = OutOfFuel | InfiniteLoop

datatype 'a reply = Success 'a string | Failure | Abort abort

type_synonym 'a parser = "string \<Rightarrow> 'a reply"

fun succeed :: "'a \<Rightarrow> 'a parser" where
  "succeed a input = Success a input"

fun string_p :: "string \<Rightarrow> string parser" where
  "string_p str input =
     (if take (length str) input = str then Success str (drop (length str) input) else Failure)"

text \<open>A pattern is given by the prefix of the input it matches, if it matches one.\<close>

fun regexp :: "(string \<Rightarrow> string option) \<Rightarrow> string parser" where
  "regexp pattern input =
     (case pattern input of
        None \<Rightarrow> Failure
      | Some matched \<Rightarrow> Success matched (drop (length matched) input))"

fun chain :: "'a parser \<Rightarrow> ('a \<Rightarrow> 'b parser) \<Rightarrow> 'b parser" where
  "chain p f input =
     (case p input of
        Success a rest \<Rightarrow> f a rest
      | Failure \<Rightarrow> Failure
      | Abort r \<Rightarrow> Abort r)"

fun pmap :: "('a \<Rightarrow> 'b) \<Rightarrow> 'a parser \<Rightarrow> 'b parser" where
  "pmap f p input =
     (case p input of
        Success a rest \<Rightarrow> Success (f a) rest
      | Failure \<Rightarrow> Failure
      | Abort r \<Rightarrow> Abort r)"

fun result :: "'a parser \<Rightarrow> 'b \<Rightarrow> 'b parser" where
  "result p b input = pmap (\<lambda>a. b) p input"

fun desc :: "'a parser \<Rightarrow> string \<Rightarrow> 'a parser" where
  "desc p expected input = p input"

fun alt :: "'a parser list \<Rightarrow> 'a parser" where
  "alt [] input = Failure"
| "alt (p # ps) input =
     (case p input of
        Success a rest \<Rightarrow> Success a rest
      | Failure \<Rightarrow> alt ps input
      | Abort r \<Rightarrow> Abort r)"

fun or :: "'a parser \<Rightarrow> 'a parser \<Rightarrow> 'a parser" where
  "or p q input = alt [p, q] input"

fun seq2 :: "'a parser \<Rightarrow> 'b parser \<Rightarrow> ('a \<times> 'b) parser" where
  "seq2 p q input = chain p (\<lambda>a. pmap (\<lambda>b. (a, b)) q) input"

fun seq3 :: "'a parser \<Rightarrow> 'b parser \<Rightarrow> 'c parser \<Rightarrow> ('a \<times> 'b \<times> 'c) parser" where
  "seq3 p q r input = chain p (\<lambda>a. pmap (\<lambda>bc. (a, bc)) (seq2 q r)) input"

fun seq4 ::
  "'a parser \<Rightarrow> 'b parser \<Rightarrow> 'c parser \<Rightarrow> 'd parser \<Rightarrow> ('a \<times> 'b \<times> 'c \<times> 'd) parser"
where
  "seq4 p q r t input = chain p (\<lambda>a. pmap (\<lambda>bcd. (a, bcd)) (seq3 q r t)) input"

fun seq6 ::
  "'a parser \<Rightarrow> 'b parser \<Rightarrow> 'c parser \<Rightarrow> 'd parser \<Rightarrow> 'e parser \<Rightarrow> 'f parser \<Rightarrow>
   ('a \<times> 'b \<times> 'c \<times> 'd \<times> 'e \<times> 'f) parser"
where
  "seq6 p q r t u v input =
     chain p (\<lambda>a. chain q (\<lambda>b. pmap (\<lambda>cdef. (a, b, cdef)) (seq4 r t u v))) input"

text \<open>
  \<^verbatim>\<open>many\<close> repeats its parser until it fails. The library throws when a round succeeds
  without reading anything.
\<close>

fun many :: "'a parser \<Rightarrow> 'a list parser" where
  "many p input =
     (case p input of
        Success a rest \<Rightarrow>
          (if length rest < length input then
             (case many p rest of
                Success as rest' \<Rightarrow> Success (a # as) rest'
              | Failure \<Rightarrow> Failure
              | Abort r \<Rightarrow> Abort r)
           else Abort InfiniteLoop)
      | Failure \<Rightarrow> Success [] input
      | Abort r \<Rightarrow> Abort r)"

fun sepBy1 :: "'a parser \<Rightarrow> 'b parser \<Rightarrow> 'a list parser" where
  "sepBy1 p separator input =
     pmap (\<lambda>(r, rs). r # rs) (seq2 p (many (chain separator (\<lambda>x. p)))) input"

fun sepBy :: "'a parser \<Rightarrow> 'b parser \<Rightarrow> 'a list parser" where
  "sepBy p separator input = or (sepBy1 p separator) (succeed []) input"

fun trim :: "'a parser \<Rightarrow> 'b parser \<Rightarrow> 'a parser" where
  "trim p q input = pmap (\<lambda>(l, m, r). m) (seq3 q p q) input"

definition is_whitespace :: "char \<Rightarrow> bool" where
  "is_whitespace c \<longleftrightarrow> (of_char c :: nat) \<in> {9, 10, 11, 12, 13, 32, 160}"

fun optWhitespace :: "string parser" where
  "optWhitespace input = regexp (\<lambda>i. Some (takeWhile is_whitespace i)) input"

text \<open>\<^verbatim>\<open>tryParse\<close>: the whole input has to be read.\<close>

fun tryParse :: "'a parser \<Rightarrow> string \<Rightarrow> 'a reply" where
  "tryParse p input =
     (case p input of
        Success a rest \<Rightarrow> (if rest = [] then Success a [] else Failure)
      | Failure \<Rightarrow> Failure
      | Abort r \<Rightarrow> Abort r)"

subsection \<open>Lexical rules\<close>

definition is_digit :: "char \<Rightarrow> bool" where
  "is_digit c \<longleftrightarrow> 48 \<le> (of_char c :: nat) \<and> (of_char c :: nat) \<le> 57"

definition is_letter :: "char \<Rightarrow> bool" where
  "is_letter c \<longleftrightarrow>
     (65 \<le> (of_char c :: nat) \<and> (of_char c :: nat) \<le> 90) \<or>
     (97 \<le> (of_char c :: nat) \<and> (of_char c :: nat) \<le> 122)"

text \<open>
  \<^verbatim>\<open>/([0-9]+\.[0-9]+)|([0-9]*\.[0-9]+)|([0-9]+\.[0-9]*)|([0-9]+)/\<close>: the alternatives
  in their order; each repetition takes all the digits there are (with fewer, the next
  character would be a digit where the pattern wants the point or has ended).
\<close>

definition number_regex :: "string \<Rightarrow> string option" where
  "number_regex input =
     (let whole = takeWhile is_digit input;
          after = dropWhile is_digit input;
          fraction = (case after of c # cs \<Rightarrow> if c = CHR ''.'' then takeWhile is_digit cs else []
                      | [] \<Rightarrow> []);
          point = (case after of c # cs \<Rightarrow> c = CHR ''.'' | [] \<Rightarrow> False)
      in if whole \<noteq> [] \<and> point \<and> fraction \<noteq> [] then Some (whole @ ''.'' @ fraction)
         else if point \<and> fraction \<noteq> [] then Some (whole @ ''.'' @ fraction)
         else if whole \<noteq> [] \<and> point then Some (whole @ ''.'' @ fraction)
         else if whole \<noteq> [] then Some whole
         else None)"

text \<open>
  \<^verbatim>\<open>parseFloat\<close> on the texts the pattern above yields: digits with at most one point.
  The number is the exact value of the decimal text.
\<close>

definition digits_value :: "string \<Rightarrow> nat" where
  "digits_value ds = foldl (\<lambda>n c. 10 * n + (of_char c - 48)) 0 ds"

definition parseFloat :: "string \<Rightarrow> number" where
  "parseFloat str =
     (let whole = takeWhile is_digit str;
          after = dropWhile is_digit str;
          fraction = (case after of c # cs \<Rightarrow> if c = CHR ''.'' then takeWhile is_digit cs else []
                      | [] \<Rightarrow> [])
      in if whole = [] \<and> fraction = [] then NaN
         else Fin (of_nat (digits_value whole)
                   + of_nat (digits_value fraction) / 10 ^ length fraction))"

text \<open>\<^verbatim>\<open>/[A-Za-z_][A-Za-z0-9_\.]*/\<close>\<close>

definition variable_name_regex :: "string \<Rightarrow> string option" where
  "variable_name_regex input =
     (case input of
        [] \<Rightarrow> None
      | c # cs \<Rightarrow>
          if is_letter c \<or> c = CHR ''_''
          then Some (c # takeWhile (\<lambda>d. is_letter d \<or> is_digit d \<or> d = CHR ''_'' \<or> d = CHR ''.'') cs)
          else None)"

definition double_quote :: char where
  "double_quote = CHR 0x22"

definition single_quote :: char where
  "single_quote = CHR 0x27"

fun number_parser :: "Expression parser" where
  "number_parser input =
     desc (pmap (\<lambda>str. Number (parseFloat str)) (regexp number_regex)) ''number'' input"

fun true_parser :: "Expression parser" where
  "true_parser input = result (string_p ''True'') (Boolean True) input"

fun false_parser :: "Expression parser" where
  "false_parser input = result (string_p ''False'') (Boolean False) input"

fun bool_parser :: "Expression parser" where
  "bool_parser input = desc (alt [true_parser, false_parser]) ''boolean'' input"

fun string_parser :: "Expression parser" where
  "string_parser input =
     desc
       (pmap (\<lambda>(left, v, right). String v)
          (alt
             [seq3 (string_p [double_quote])
                (regexp (\<lambda>i. Some (takeWhile (\<lambda>c. c \<noteq> double_quote) i)))
                (string_p [double_quote]),
              seq3 (string_p [single_quote])
                (regexp (\<lambda>i. Some (takeWhile (\<lambda>c. c \<noteq> single_quote) i)))
                (string_p [single_quote])]))
       ''string'' input"

fun variable_parser :: "Expression parser" where
  "variable_parser input =
     desc (pmap (\<lambda>variable_name. Variable variable_name) (regexp variable_name_regex))
       ''free variable'' input"

text \<open>
  The rules below refer to \<^verbatim>\<open>expression_parser\<close>, which is defined after them from
  them: each takes it as its first argument.
\<close>

fun parens_parser :: "Expression parser \<Rightarrow> Expression parser" where
  "parens_parser expression_parser input =
     desc
       (pmap (\<lambda>(open_bracket, expression, close_bracket). expression)
          (seq3 (string_p ''('') expression_parser (string_p '')'')))
       ''parenthesized expression'' input"

fun index_parser :: "Expression parser \<Rightarrow> Expression parser" where
  "index_parser expression_parser input =
     desc
       (pmap (\<lambda>(variable, open_bracket, index_expression, close_bracket).
                Index variable index_expression)
          (seq4 (or variable_parser (parens_parser expression_parser))
             (string_p ''['')
             (trim expression_parser optWhitespace)
             (string_p '']'')))
       ''index expression'' input"

fun slice_parser :: "Expression parser \<Rightarrow> Expression parser" where
  "slice_parser expression_parser input =
     desc
       (pmap (\<lambda>(variable, open_bracket, start_expression, colon, end_expression, close_bracket).
                Slice variable start_expression end_expression)
          (seq6 (or variable_parser (parens_parser expression_parser))
             (string_p ''['')
             (trim expression_parser optWhitespace)
             (string_p '':'')
             (trim expression_parser optWhitespace)
             (string_p '']'')))
       ''slice expression'' input"

fun list_parser :: "Expression parser \<Rightarrow> Expression parser" where
  "list_parser expression_parser input =
     desc
       (pmap (\<lambda>(bracket_open, elements, bracket_close). elements)
          (seq3 (trim (string_p ''['') optWhitespace)
             (pmap (\<lambda>elements. List elements)
                (sepBy expression_parser (trim (string_p '','') optWhitespace)))
             (trim (string_p '']'') optWhitespace)))
       ''list expression'' input"

fun apply_parser :: "Expression parser \<Rightarrow> Expression parser" where
  "apply_parser expression_parser input =
     pmap (\<lambda>(fn, bracket_open, args, bracket_close). Apply fn args)
       (seq4 (or variable_parser (parens_parser expression_parser))
          (string_p ''('')
          (trim (sepBy expression_parser (trim (string_p '','') optWhitespace)) optWhitespace)
          (string_p '')'')) input"

fun primary_parser :: "Expression parser \<Rightarrow> Expression parser" where
  "primary_parser expression_parser input =
     alt [number_parser, bool_parser, string_parser, list_parser expression_parser,
          apply_parser expression_parser, index_parser expression_parser,
          slice_parser expression_parser, parens_parser expression_parser, variable_parser]
       input"

subsection \<open>The precedence ladder\<close>

text \<open>
  An operator parser yields the class to instantiate; \<^verbatim>\<open>new constructor(...)\<close> is the
  node of that class.
\<close>

fun createOperatorParser :: "(string \<times> 'c \<times> string) list \<Rightarrow> 'c parser" where
  "createOperatorParser operators input =
     alt (map (\<lambda>(operator_str, constructor, description).
                 desc (result (trim (string_p operator_str) optWhitespace) constructor) description)
            operators) input"

fun unaryPreFixParser ::
  "nat \<Rightarrow> Expression parser \<Rightarrow> UnaryClass parser \<Rightarrow> Expression parser"
where
  "unaryPreFixParser 0 prev_parser operator_parser input = Abort OutOfFuel"
| "unaryPreFixParser (Suc fuel) prev_parser operator_parser input =
     or (pmap (\<lambda>(constructor, expression). Unary constructor expression)
           (seq2 operator_parser (unaryPreFixParser fuel prev_parser operator_parser)))
        prev_parser input"

fun leftAssociativeBinaryOperatorParser ::
  "Expression parser \<Rightarrow> BinaryClass parser \<Rightarrow> Expression parser"
where
  "leftAssociativeBinaryOperatorParser prev_parser operator_parser input =
     pmap (\<lambda>(first, rest).
             foldl (\<lambda>left_expression (constructor, right_expression).
                      Binary constructor left_expression right_expression) first rest)
       (seq2 prev_parser (many (seq2 operator_parser prev_parser))) input"

fun rightAssociativeBinaryOperatorParser ::
  "nat \<Rightarrow> Expression parser \<Rightarrow> BinaryClass parser \<Rightarrow> Expression parser"
where
  "rightAssociativeBinaryOperatorParser 0 prev_parser operator_parser input = Abort OutOfFuel"
| "rightAssociativeBinaryOperatorParser (Suc fuel) prev_parser operator_parser input =
     chain prev_parser
       (\<lambda>left_expression.
          or (pmap (\<lambda>(constructor, right_expression).
                      Binary constructor left_expression right_expression)
                (seq2 operator_parser
                   (rightAssociativeBinaryOperatorParser fuel prev_parser operator_parser)))
             (succeed left_expression)) input"

fun condition_parser :: "nat \<Rightarrow> Expression parser \<Rightarrow> Expression parser" where
  "condition_parser 0 prev_parser input = Abort OutOfFuel"
| "condition_parser (Suc fuel) prev_parser input =
     chain prev_parser
       (\<lambda>a. or (pmap (\<lambda>(if_token, condition, else_token, b). Condition condition a b)
                   (seq4 (trim (string_p ''if'') optWhitespace)
                      prev_parser
                      (trim (string_p ''else'') optWhitespace)
                      (condition_parser fuel prev_parser)))
                (succeed a)) input"

definition associativity_table :: "(nat \<Rightarrow> Expression parser \<Rightarrow> Expression parser) list" where
  "associativity_table =
     [\<lambda>fuel prev_parser. rightAssociativeBinaryOperatorParser fuel prev_parser
        (createOperatorParser [(''**'', Exponentiate, ''exponentiation'')]),
      \<lambda>fuel prev_parser. unaryPreFixParser fuel prev_parser
        (createOperatorParser [(''-'', Negate, ''negate'')]),
      \<lambda>fuel prev_parser. leftAssociativeBinaryOperatorParser prev_parser
        (createOperatorParser
           [(''*'', Multiply, ''multiplication''),
            (''/'', Divide, ''division''),
            (''%'', Modulo, ''modulo'')]),
      \<lambda>fuel prev_parser. leftAssociativeBinaryOperatorParser prev_parser
        (createOperatorParser
           [(''+'', Addition, ''addition''),
            (''-'', Subtraction, ''subtraction'')]),
      \<lambda>fuel prev_parser. leftAssociativeBinaryOperatorParser prev_parser
        (createOperatorParser
           [(''=='', Equality, ''equality''),
            (''!='', InEquality, ''inequality''),
            (''<='', LessThenEq, ''less than or equal to''),
            (''>='', GreaterThenEq, ''greater than or equal to''),
            (''<'', LessThen, ''less than''),
            (''>'', GreaterThen, ''greater than'')]),
      \<lambda>fuel prev_parser. unaryPreFixParser fuel prev_parser
        (createOperatorParser [(''not'', Not_op, ''not'')]),
      \<lambda>fuel prev_parser. leftAssociativeBinaryOperatorParser prev_parser
        (createOperatorParser [(''and'', And, ''and'')]),
      \<lambda>fuel prev_parser. leftAssociativeBinaryOperatorParser prev_parser
        (createOperatorParser [(''or'', Or, ''or'')]),
      \<lambda>fuel prev_parser. condition_parser fuel prev_parser,
      \<lambda>fuel prev_parser. rightAssociativeBinaryOperatorParser fuel prev_parser
        (createOperatorParser [('':='', Assignment, ''assignement operator'')])]"

text \<open>
  \<^verbatim>\<open>expression_parser\<close> wraps the primary parser in the layers of the table, the first
  layer innermost. Its argument bounds the depth of the recursion through \<^verbatim>\<open>lazy\<close>.
\<close>

fun expression_parser :: "nat \<Rightarrow> Expression parser" where
  "expression_parser 0 input = Abort OutOfFuel"
| "expression_parser (Suc fuel) input =
     foldl (\<lambda>prev_parser wrap_associativity_layer. wrap_associativity_layer fuel prev_parser)
       (primary_parser (expression_parser fuel)) associativity_table input"

section \<open>Notions used in the statements\<close>

text \<open>
  The environment \<^verbatim>\<open>{}\<close> (the default of the test harness), the environment
  \<^verbatim>\<open>{ "a": [1, 2, 3] }\<close> of its list tests, the environment \<^verbatim>\<open>{ "a": [1, , 3] }\<close>
  whose array has no element at position 1, and a host for the closed examples: a
  program that supplies no callables. The examples evaluated with it reach none of the
  conversions a host provides, so what these return here is immaterial.
\<close>

definition empty_store :: store where
  "empty_store = \<lparr>environment = Map.empty, next_array = 0\<rparr>"

definition list_store :: store where
  "list_store =
     \<lparr>environment = [''a'' \<mapsto> VList 0 [VNumber (Fin 1), VNumber (Fin 2), VNumber (Fin 3)]],
      next_array = 1\<rparr>"

definition sparse_store :: store where
  "sparse_store =
     \<lparr>environment = [''a'' \<mapsto> VList 0 [VNumber (Fin 1), VUndefined, VNumber (Fin 3)]],
      next_array = 1\<rparr>"

definition bare_host :: host where
  "bare_host =
     \<lparr>number_to_string = (\<lambda>x. []), string_to_number = (\<lambda>s. NaN),
      function_to_string = (\<lambda>f. []), function_call = (\<lambda>f args. Inl (HostError [])),
      pow_approx = (\<lambda>a b. NaN)\<rparr>"

text \<open>
  A reply approximates another when it is that reply or the parse stopped at the bound
  on the recursion depth; a parser approximates another when it does so on every input.
\<close>

definition approximates :: "'a reply \<Rightarrow> 'a reply \<Rightarrow> bool" where
  "approximates r r' \<longleftrightarrow> r = Abort OutOfFuel \<or> r = r'"

definition refines :: "'a parser \<Rightarrow> 'a parser \<Rightarrow> bool" where
  "refines p q \<longleftrightarrow> (\<forall>input. approximates (p input) (q input))"



section \<open>Properties of the parser\<close>

subsection \<open>More fuel never changes a parse\<close>

text \<open>
  A parse that ends within the bound on the recursion depth ends the same way with
  every larger bound: each combinator and each rule of the grammar preserves
  approximation.
\<close>

declare many.simps [simp del]

lemma approximates_refl: "approximates r r"
  by (simp add: approximates_def)

lemma refines_refl: "refines p p"
  by (simp add: refines_def approximates_refl)

lemma refinesD: "refines p q \<Longrightarrow> p input = Abort OutOfFuel \<or> p input = q input"
  by (simp add: refines_def approximates_def)

lemma refines_trans: "refines p q \<Longrightarrow> refines q r \<Longrightarrow> refines p r"
proof -
  assume pq: "refines p q" and qr: "refines q r"
  show "refines p r"
    unfolding refines_def
  proof
    fix input
    from refinesD [OF pq, of input] refinesD [OF qr, of input]
    show "approximates (p input) (r input)"
      by (auto simp add: approximates_def)
  qed
qed


lemma refines_chain:
  assumes "refines p p'" and "\<And>a. refines (f a) (f' a)"
  shows "refines (chain p f) (chain p' f')"
  unfolding refines_def
proof
  fix input
  from refinesD [OF assms(1), of input]
  show "approximates (chain p f input) (chain p' f' input)"
  proof
    assume "p input = Abort OutOfFuel"
    then show ?thesis by (simp add: approximates_def)
  next
    assume eq: "p input = p' input"
    show ?thesis
    proof (cases "p' input")
      case (Success a rest)
      with eq refinesD [OF assms(2), of a rest] show ?thesis
        by (auto simp add: approximates_def)
    qed (use eq in \<open>simp_all add: approximates_def\<close>)
  qed
qed

lemma refines_pmap:
  assumes "refines p p'"
  shows "refines (pmap f p) (pmap f p')"
  unfolding refines_def
proof
  fix input
  from refinesD [OF assms, of input]
  show "approximates (pmap f p input) (pmap f p' input)"
    by (auto simp add: approximates_def)
qed

lemma refines_alt:
  assumes "list_all2 refines ps ps'"
  shows "refines (alt ps) (alt ps')"
  using assms
proof (induction rule: list_all2_induct)
  case Nil
  show ?case by (rule refines_refl)
next
  case (Cons p ps q qs)
  show ?case
    unfolding refines_def
  proof
    fix input
    from refinesD [OF Cons.hyps(1), of input] refinesD [OF Cons.IH, of input]
    show "approximates (alt (p # ps) input) (alt (q # qs) input)"
      by (auto simp add: approximates_def split: reply.splits)
  qed
qed

lemma refines_many:
  assumes "refines p p'"
  shows "refines (many p) (many p')"
  unfolding refines_def
proof
  fix input
  show "approximates (many p input) (many p' input)"
  proof (induction input rule: length_induct)
    case (1 input)
    from refinesD [OF assms, of input] show ?case
    proof
      assume "p input = Abort OutOfFuel"
      then show ?thesis by (subst many.simps) (simp add: approximates_def)
    next
      assume eq: "p input = p' input"
      show ?thesis
      proof (cases "p' input")
        case (Success a rest)
        show ?thesis
        proof (cases "length rest < length input")
          case True
          with 1 have "approximates (many p rest) (many p' rest)" by blast
          with True Success eq show ?thesis
            by (subst many.simps, subst (2) many.simps)
               (auto simp add: approximates_def split: reply.splits)
        next
          case False
          with Success eq show ?thesis
            by (subst many.simps, subst (2) many.simps) (simp add: approximates_def)
        qed
      next
        case Failure
        with eq show ?thesis
          by (subst many.simps, subst (2) many.simps) (simp add: approximates_def)
      next
        case (Abort r)
        with eq show ?thesis
          by (subst many.simps, subst (2) many.simps) (simp add: approximates_def)
      qed
    qed
  qed
qed


lemma refines_or:
  assumes "refines p p'" and "refines q q'"
  shows "refines (or p q) (or p' q')"
proof -
  have "or p q = alt [p, q]" and "or p' q' = alt [p', q']"
    by (rule ext, simp)+
  with assms show ?thesis
    by (simp add: refines_alt)
qed

lemma refines_result:
  assumes "refines p p'"
  shows "refines (result p b) (result p' b)"
proof -
  have "result p b = pmap (\<lambda>a. b) p" and "result p' b = pmap (\<lambda>a. b) p'"
    by (rule ext, simp)+
  with assms show ?thesis
    by (simp add: refines_pmap)
qed

lemma refines_desc:
  assumes "refines p p'"
  shows "refines (desc p d) (desc p' d)"
proof -
  have "desc p d = p" and "desc p' d = p'"
    by (rule ext, simp)+
  with assms show ?thesis
    by simp
qed

lemma refines_seq2:
  assumes "refines p p'" and "refines q q'"
  shows "refines (seq2 p q) (seq2 p' q')"
proof -
  have "seq2 p q = chain p (\<lambda>a. pmap (\<lambda>b. (a, b)) q)"
    and "seq2 p' q' = chain p' (\<lambda>a. pmap (\<lambda>b. (a, b)) q')"
    by (rule ext, simp)+
  with assms show ?thesis
    by (simp add: refines_chain refines_pmap)
qed

lemma refines_seq3:
  assumes "refines p p'" and "refines q q'" and "refines r r'"
  shows "refines (seq3 p q r) (seq3 p' q' r')"
proof -
  have "seq3 p q r = chain p (\<lambda>a. pmap (\<lambda>bc. (a, bc)) (seq2 q r))"
    and "seq3 p' q' r' = chain p' (\<lambda>a. pmap (\<lambda>bc. (a, bc)) (seq2 q' r'))"
    by (rule ext, simp)+
  with assms show ?thesis
    by (simp add: refines_chain refines_pmap refines_seq2)
qed

lemma refines_seq4:
  assumes "refines p p'" and "refines q q'" and "refines r r'" and "refines t t'"
  shows "refines (seq4 p q r t) (seq4 p' q' r' t')"
proof -
  have "seq4 p q r t = chain p (\<lambda>a. pmap (\<lambda>bcd. (a, bcd)) (seq3 q r t))"
    and "seq4 p' q' r' t' = chain p' (\<lambda>a. pmap (\<lambda>bcd. (a, bcd)) (seq3 q' r' t'))"
    by (rule ext, simp)+
  with assms show ?thesis
    by (simp add: refines_chain refines_pmap refines_seq3)
qed

lemma refines_seq6:
  assumes "refines p p'" and "refines q q'" and "refines r r'" and "refines t t'"
    and "refines u u'" and "refines v v'"
  shows "refines (seq6 p q r t u v) (seq6 p' q' r' t' u' v')"
proof -
  have "seq6 p q r t u v =
      chain p (\<lambda>a. chain q (\<lambda>b. pmap (\<lambda>cdef. (a, b, cdef)) (seq4 r t u v)))"
    and "seq6 p' q' r' t' u' v' =
      chain p' (\<lambda>a. chain q' (\<lambda>b. pmap (\<lambda>cdef. (a, b, cdef)) (seq4 r' t' u' v')))"
    by (rule ext, simp)+
  with assms show ?thesis
    by (simp add: refines_chain refines_pmap refines_seq4)
qed

lemma refines_trim:
  assumes "refines p p'"
  shows "refines (trim p q) (trim p' q)"
proof -
  have "trim p q = pmap (\<lambda>(l, m, r). m) (seq3 q p q)"
    and "trim p' q = pmap (\<lambda>(l, m, r). m) (seq3 q p' q)"
    by (rule ext, simp)+
  with assms show ?thesis
    by (simp add: refines_pmap refines_seq3 refines_refl)
qed

lemma refines_sepBy:
  assumes "refines p p'"
  shows "refines (sepBy p separator) (sepBy p' separator)"
proof -
  have "sepBy p separator =
      or (pmap (\<lambda>(r, rs). r # rs) (seq2 p (many (chain separator (\<lambda>x. p))))) (succeed [])"
    and "sepBy p' separator =
      or (pmap (\<lambda>(r, rs). r # rs) (seq2 p' (many (chain separator (\<lambda>x. p'))))) (succeed [])"
    by (rule ext, simp)+
  with assms show ?thesis
    by (simp add: refines_or refines_pmap refines_seq2 refines_many refines_chain refines_refl)
qed

lemmas refines_combinators =
  refines_refl refines_chain refines_pmap refines_or refines_result refines_desc
  refines_seq2 refines_seq3 refines_seq4 refines_seq6 refines_trim refines_sepBy refines_many

lemma refines_parens_parser:
  assumes "refines e e'"
  shows "refines (parens_parser e) (parens_parser e')"
proof -
  have "parens_parser e =
      desc (pmap (\<lambda>(open_bracket, expression, close_bracket). expression)
              (seq3 (string_p ''('') e (string_p '')''))) ''parenthesized expression''" for e
    by (rule ext) simp
  with assms show ?thesis
    by (simp add: refines_combinators)
qed

lemma refines_index_parser:
  assumes "refines e e'"
  shows "refines (index_parser e) (index_parser e')"
proof -
  have "index_parser e =
      desc (pmap (\<lambda>(variable, open_bracket, index_expression, close_bracket).
                Index variable index_expression)
          (seq4 (or variable_parser (parens_parser e))
             (string_p ''['')
             (trim e optWhitespace)
             (string_p '']''))) ''index expression''" for e
    by (rule ext) simp
  with assms show ?thesis
    by (simp add: refines_combinators refines_parens_parser)
qed

lemma refines_slice_parser:
  assumes "refines e e'"
  shows "refines (slice_parser e) (slice_parser e')"
proof -
  have "slice_parser e =
      desc (pmap (\<lambda>(variable, open_bracket, start_expression, colon, end_expression, close_bracket).
                Slice variable start_expression end_expression)
          (seq6 (or variable_parser (parens_parser e))
             (string_p ''['')
             (trim e optWhitespace)
             (string_p '':'')
             (trim e optWhitespace)
             (string_p '']''))) ''slice expression''" for e
    by (rule ext) simp
  with assms show ?thesis
    by (simp add: refines_combinators refines_parens_parser)
qed

lemma refines_list_parser:
  assumes "refines e e'"
  shows "refines (list_parser e) (list_parser e')"
proof -
  have "list_parser e =
      desc (pmap (\<lambda>(bracket_open, elements, bracket_close). elements)
          (seq3 (trim (string_p ''['') optWhitespace)
             (pmap (\<lambda>elements. List elements)
                (sepBy e (trim (string_p '','') optWhitespace)))
             (trim (string_p '']'') optWhitespace))) ''list expression''" for e
    by (rule ext) simp
  with assms show ?thesis
    by (simp add: refines_combinators)
qed

lemma refines_apply_parser:
  assumes "refines e e'"
  shows "refines (apply_parser e) (apply_parser e')"
proof -
  have "apply_parser e =
      pmap (\<lambda>(fn, bracket_open, args, bracket_close). Apply fn args)
       (seq4 (or variable_parser (parens_parser e))
          (string_p ''('')
          (trim (sepBy e (trim (string_p '','') optWhitespace)) optWhitespace)
          (string_p '')''))" for e
    by (rule ext) simp
  with assms show ?thesis
    by (simp add: refines_combinators refines_parens_parser)
qed

lemma refines_primary_parser:
  assumes "refines e e'"
  shows "refines (primary_parser e) (primary_parser e')"
proof -
  have "primary_parser e =
      alt [number_parser, bool_parser, string_parser, list_parser e,
          apply_parser e, index_parser e, slice_parser e, parens_parser e, variable_parser]" for e
    by (rule ext) simp
  with assms show ?thesis
    by (simp add: refines_alt refines_refl refines_parens_parser refines_index_parser
        refines_slice_parser refines_list_parser refines_apply_parser)
qed

lemma refines_eq: "refines p q \<Longrightarrow> p' = p \<Longrightarrow> q' = q \<Longrightarrow> refines p' q'"
  by simp

lemma refines_out_of_fuel: "refines (\<lambda>input. Abort OutOfFuel) p"
  by (simp add: refines_def approximates_def)

lemma refines_unaryPreFixParser:
  assumes "refines prev prev'"
  shows "refines (unaryPreFixParser n prev op) (unaryPreFixParser (Suc n) prev' op)"
proof (induction n)
  case 0
  have "unaryPreFixParser 0 prev op = (\<lambda>input. Abort OutOfFuel)"
    by (rule ext) simp
  then show ?case
    by (simp add: refines_out_of_fuel)
next
  case (Suc n)
  have unfold: "unaryPreFixParser (Suc n) prev op =
      or (pmap (\<lambda>(constructor, expression). Unary constructor expression)
           (seq2 op (unaryPreFixParser n prev op))) prev" for n prev
    by (rule ext) simp
  show ?case
    by (rule refines_eq [OF _ unfold [of n prev] unfold [of "Suc n" prev']])
       (intro refines_combinators assms Suc)
qed

lemma refines_leftAssociativeBinaryOperatorParser:
  assumes "refines prev prev'"
  shows "refines (leftAssociativeBinaryOperatorParser prev op)
           (leftAssociativeBinaryOperatorParser prev' op)"
proof -
  have "leftAssociativeBinaryOperatorParser prev op =
      pmap (\<lambda>(first, rest).
             foldl (\<lambda>left_expression (constructor, right_expression).
                      Binary constructor left_expression right_expression) first rest)
       (seq2 prev (many (seq2 op prev)))" for prev
    by (rule ext) simp
  with assms show ?thesis
    by (simp add: refines_combinators)
qed

lemma refines_rightAssociativeBinaryOperatorParser:
  assumes "refines prev prev'"
  shows "refines (rightAssociativeBinaryOperatorParser n prev op)
           (rightAssociativeBinaryOperatorParser (Suc n) prev' op)"
proof (induction n)
  case 0
  have "rightAssociativeBinaryOperatorParser 0 prev op = (\<lambda>input. Abort OutOfFuel)"
    by (rule ext) simp
  then show ?case
    by (simp add: refines_out_of_fuel)
next
  case (Suc n)
  have unfold: "rightAssociativeBinaryOperatorParser (Suc n) prev op =
      chain prev
       (\<lambda>left_expression.
          or (pmap (\<lambda>(constructor, right_expression).
                      Binary constructor left_expression right_expression)
                (seq2 op (rightAssociativeBinaryOperatorParser n prev op)))
             (succeed left_expression))" for n prev
    by (rule ext) simp
  show ?case
    by (rule refines_eq [OF _ unfold [of n prev] unfold [of "Suc n" prev']])
       (intro refines_combinators assms Suc)
qed

lemma refines_condition_parser:
  assumes "refines prev prev'"
  shows "refines (condition_parser n prev) (condition_parser (Suc n) prev')"
proof (induction n)
  case 0
  have "condition_parser 0 prev = (\<lambda>input. Abort OutOfFuel)"
    by (rule ext) simp
  then show ?case
    by (simp add: refines_out_of_fuel)
next
  case (Suc n)
  have unfold: "condition_parser (Suc n) prev =
      chain prev
       (\<lambda>a. or (pmap (\<lambda>(if_token, condition, else_token, b). Condition condition a b)
                   (seq4 (trim (string_p ''if'') optWhitespace)
                      prev
                      (trim (string_p ''else'') optWhitespace)
                      (condition_parser n prev)))
                (succeed a))" for n prev
    by (rule ext) simp
  show ?case
    by (rule refines_eq [OF _ unfold [of n prev] unfold [of "Suc n" prev']])
       (intro refines_combinators assms Suc)
qed

lemma refines_associativity_layer:
  assumes "wrap \<in> set associativity_table" and "refines prev prev'"
  shows "refines (wrap n prev) (wrap (Suc n) prev')"
  using assms
  by (auto simp add: associativity_table_def refines_unaryPreFixParser
      refines_leftAssociativeBinaryOperatorParser refines_rightAssociativeBinaryOperatorParser
      refines_condition_parser)

lemma refines_foldl:
  assumes "set layers \<subseteq> set associativity_table" and "refines p p'"
  shows "refines (foldl (\<lambda>prev wrap. wrap n prev) p layers)
           (foldl (\<lambda>prev wrap. wrap (Suc n) prev) p' layers)"
  using assms
  by (induction layers arbitrary: p p') (simp_all add: refines_associativity_layer)

lemma refines_expression_parser_Suc:
  "refines (expression_parser n) (expression_parser (Suc n))"
proof (induction n)
  case 0
  have "expression_parser 0 = (\<lambda>input. Abort OutOfFuel)"
    by (rule ext) simp
  then show ?case
    by (simp add: refines_out_of_fuel)
next
  case (Suc n)
  have unfold: "expression_parser (Suc n) =
      foldl (\<lambda>prev_parser wrap_associativity_layer. wrap_associativity_layer n prev_parser)
        (primary_parser (expression_parser n)) associativity_table" for n
    by (rule ext) simp
  show ?case
    by (rule refines_eq [OF _ unfold [of n] unfold [of "Suc n"]])
       (intro refines_foldl refines_primary_parser Suc subset_refl)
qed

lemma refines_expression_parser: "refines (expression_parser n) (expression_parser (n + k))"
proof (induction k)
  case 0
  show ?case by (simp only: add_0_right refines_refl)
next
  case (Suc k)
  have "refines (expression_parser (n + k)) (expression_parser (Suc (n + k)))"
    by (rule refines_expression_parser_Suc)
  with Suc have "refines (expression_parser n) (expression_parser (Suc (n + k)))"
    by (rule refines_trans)
  then show ?case
    by (simp only: add_Suc_right)
qed

lemma tryParse_more_fuel:
  assumes "tryParse (expression_parser n) input = Success a rest"
  shows "tryParse (expression_parser (n + k)) input = Success a rest"
proof -
  from refinesD [OF refines_expression_parser, of n input k] assms show ?thesis
    by (auto split: reply.splits if_splits)
qed

declare expression_parser.simps [simp del]

declare tryParse.simps [simp del]

subsection \<open>Inputs of the test harness\<close>

text \<open>
  The inputs of \<^verbatim>\<open>parser.test.ts\<close> that the statements below use, and "1 := 2", parse
  to the trees the harness expects, with any bound from the one given on.
\<close>

lemma parse_exponentiation:
  "tryParse (expression_parser (4 + fuel)) ''4 ** 3 ** 2'' =
     Success (Binary Exponentiate (Number (Fin 4))
                (Binary Exponentiate (Number (Fin 3)) (Number (Fin 2)))) []"
proof (rule tryParse_more_fuel)
  show "tryParse (expression_parser 4) ''4 ** 3 ** 2'' =
     Success (Binary Exponentiate (Number (Fin 4))
                (Binary Exponentiate (Number (Fin 3)) (Number (Fin 2)))) []"
    by code_simp
qed


lemma parse_assignment_to_number:
  "tryParse (expression_parser (3 + fuel)) ''1 := 2'' =
     Success (Binary Assignment (Number (Fin 1)) (Number (Fin 2))) []"
proof (rule tryParse_more_fuel)
  show "tryParse (expression_parser 3) ''1 := 2'' =
     Success (Binary Assignment (Number (Fin 1)) (Number (Fin 2))) []"
    by code_simp
qed

lemma parse_precedence:
  "tryParse (expression_parser (2 + fuel)) ''1 + 2 - 3 * 3'' =
     Success (Binary Subtraction (Binary Addition (Number (Fin 1)) (Number (Fin 2)))
                (Binary Multiply (Number (Fin 3)) (Number (Fin 3)))) []"
proof (rule tryParse_more_fuel)
  show "tryParse (expression_parser 2) ''1 + 2 - 3 * 3'' =
     Success (Binary Subtraction (Binary Addition (Number (Fin 1)) (Number (Fin 2)))
                (Binary Multiply (Number (Fin 3)) (Number (Fin 3)))) []"
    by code_simp
qed

lemma parse_without_spaces:
  "tryParse (expression_parser (2 + fuel)) ''TrueandTrue'' =
     Success (Binary And (Boolean True) (Boolean True)) []"
proof (rule tryParse_more_fuel)
  show "tryParse (expression_parser 2) ''TrueandTrue'' =
     Success (Binary And (Boolean True) (Boolean True)) []"
    by code_simp
qed

lemma parse_chained_condition:
  "tryParse (expression_parser (4 + fuel)) ''1 if False else 2 if True else 3'' =
     Success (Condition (Boolean False) (Number (Fin 1))
                (Condition (Boolean True) (Number (Fin 2)) (Number (Fin 3)))) []"
proof (rule tryParse_more_fuel)
  show "tryParse (expression_parser 4) ''1 if False else 2 if True else 3'' =
     Success (Condition (Boolean False) (Number (Fin 1))
                (Condition (Boolean True) (Number (Fin 2)) (Number (Fin 3)))) []"
    by code_simp
qed

lemma parse_slice:
  "tryParse (expression_parser (3 + fuel)) ''a[0 : 2]'' =
     Success (Slice (Variable ''a'') (Number (Fin 0)) (Number (Fin 2))) []"
proof (rule tryParse_more_fuel)
  show "tryParse (expression_parser 3) ''a[0 : 2]'' =
     Success (Slice (Variable ''a'') (Number (Fin 0)) (Number (Fin 2))) []"
    by code_simp
qed

lemma parse_index_of_list:
  "tryParse (expression_parser (4 + fuel)) ''([1, 2 + 2])[1]'' =
     Success (Index (List [Number (Fin 1), Binary Addition (Number (Fin 2)) (Number (Fin 2))])
                (Number (Fin 1))) []"
proof (rule tryParse_more_fuel)
  show "tryParse (expression_parser 4) ''([1, 2 + 2])[1]'' =
     Success (Index (List [Number (Fin 1), Binary Addition (Number (Fin 2)) (Number (Fin 2))])
                (Number (Fin 1))) []"
    by code_simp
qed

lemma parse_trailing_input: "tryParse (expression_parser (2 + fuel)) ''1 '' = Failure"
proof -
  have "tryParse (expression_parser 2) ''1 '' = Failure"
    by code_simp
  with refinesD [OF refines_expression_parser, of 2 "''1 ''" fuel] show ?thesis
    by (auto simp add: tryParse.simps split: reply.splits if_splits)
qed

section \<open>Properties of the evaluator\<close>

lemma and_then_returns [simp]: "and_then (returns v s) f = f v s"
  by (simp add: and_then_def returns_def)

lemma and_then_throws [simp]: "and_then (throws e s) f = throws e s"
  by (simp add: and_then_def throws_def)

lemma and_then_None [simp]: "and_then None f = None"
  by (simp add: and_then_def)

lemma returns_neq_throws [simp]: "returns v s \<noteq> throws e s'"
  by (simp add: returns_def throws_def)

lemma returns_eq_iff [simp]: "returns v s = returns v' s' \<longleftrightarrow> v = v' \<and> s = s'"
  by (simp add: returns_def)

subsection \<open>Results the test harness expects\<close>

lemma resolve_precedence:
  "resolve h (Binary Subtraction (Binary Addition (Number (Fin 1)) (Number (Fin 2)))
                (Binary Multiply (Number (Fin 3)) (Number (Fin 3)))) s
     = returns (VNumber (Fin (- 6))) s"
  by (simp add: js_add_def to_number_def to_primitive_def is_VString_def number_sub_def)

lemma resolve_chained_condition:
  "resolve h (Condition (Boolean False) (Number (Fin 1))
                (Condition (Boolean True) (Number (Fin 2)) (Number (Fin 3)))) s
     = returns (VNumber (Fin 2)) s"
  by (simp add: to_boolean_def)

lemma resolve_slice:
  "resolve h (Slice (Variable ''a'') (Number (Fin 0)) (Number (Fin 2))) list_store
     = returns (VList 1 [VNumber (Fin 1), VNumber (Fin 2)]) (list_store\<lparr>next_array := 2\<rparr>)"
  by (simp add: list_store_def array_slice_def relative_index_def trunc_def)

lemma resolve_index_of_list:
  "resolve h (Index (List [Number (Fin 1), Binary Addition (Number (Fin 2)) (Number (Fin 2))])
                (Number (Fin 1))) empty_store
     = returns (VNumber (Fin 4)) (empty_store\<lparr>next_array := 1\<rparr>)"
  by (simp add: empty_store_def array_get_def is_integer_def js_add_def to_number_def
      to_primitive_def is_VString_def)

lemma resolve_undefined_variable:
  "resolve h (Variable x) empty_store = throws (VariableNotDefined x) empty_store"
  by (simp add: empty_store_def)

subsection \<open>The loop of Factorial\<close>

text \<open>
  The factorial of 5 is 120, the factorial of a negative number is an error, and the
  factorial of \<^verbatim>\<open>Infinity\<close> (here \<^verbatim>\<open>1 / 0\<close>) is an evaluation that never returns.
\<close>

lemma factorial_five:
  "resolve h (Unary Factorial (Number (Fin 5))) s = returns (VNumber (Fin 120)) s"
  by (simp add: factorial_loop.simps js_lt_def js_le_def less_than_def to_primitive_def to_number_def)

lemma factorial_negative:
  "resolve h (Unary Factorial (Unary Negate (Number (Fin 1)))) s
     = throws (FactorialNotDefined (VNumber (Fin (- 1)))) s"
  by (simp add: js_lt_def js_le_def less_than_def to_primitive_def to_number_def)

lemma factorial_loop_infinity_never_returns:
  assumes "factorial_loop h v i f = Some y"
  shows "v = VNumber PosInf \<longrightarrow> (\<forall>a. i \<noteq> Fin a)"
proof (rule factorial_loop.raw_induct
    [where P = "\<lambda>h v i f y. v = VNumber PosInf \<longrightarrow> (\<forall>a. i \<noteq> Fin a)", OF _ assms])
  fix loop :: "host \<Rightarrow> ExpressionResult \<Rightarrow> number \<Rightarrow> number \<Rightarrow> number option"
    and h :: host and v :: ExpressionResult and i factorial y :: number
  assume later: "\<And>h' v' i' f' y'. loop h' v' i' f' = Some y' \<Longrightarrow>
      v' = VNumber PosInf \<longrightarrow> (\<forall>a. i' \<noteq> Fin a)"
  assume step: "(if js_le h (VNumber i) v
      then loop h v (number_add i (Fin 1)) (number_mul factorial i)
      else Some factorial) = Some y"
  show "v = VNumber PosInf \<longrightarrow> (\<forall>a. i \<noteq> Fin a)"
  proof (intro impI allI notI)
    fix a
    assume v: "v = VNumber PosInf" and i: "i = Fin a"
    with step have "loop h v (Fin (a + 1)) (number_mul factorial i) = Some y"
      by (simp add: js_le_def less_than_def to_primitive_def to_number_def)
    from later [OF this] v show False
      by simp
  qed
qed

lemma factorial_loop_infinity: "factorial_loop h (VNumber PosInf) (Fin a) f = None"
proof (cases "factorial_loop h (VNumber PosInf) (Fin a) f")
  case None
  then show ?thesis .
next
  case (Some y)
  from factorial_loop_infinity_never_returns [OF this] show ?thesis
    by simp
qed

lemma factorial_infinity_never_returns:
  "resolve h (Unary Factorial (Binary Divide (Number (Fin 1)) (Number (Fin 0)))) s = None"
  by (simp add: factorial_loop_infinity js_lt_def less_than_def to_primitive_def to_number_def)

section \<open>Properties of the free-variable analysis\<close>










section \<open>The claims\<close>

text \<open>
  Claim C1, as amended. \<^verbatim>\<open>And\<close> and \<^verbatim>\<open>Or\<close> evaluate their left operand first and
  their right operand only when the left value does not decide the node: \<^verbatim>\<open>Or\<close> with
  a truthy left value, and \<^verbatim>\<open>And\<close> with a falsy one, return the left value and leave
  the right operand unevaluated; otherwise the outcome of the node is the outcome of the
  right operand, evaluated in the state the left operand left.
\<close>

theorem and_or_skip_right_operand:
  assumes "resolve h l s = returns a s1"
  shows "resolve h (Binary Or l r) s = (if to_boolean a then returns a s1 else resolve h r s1)
       \<and> resolve h (Binary And l r) s = (if to_boolean a then resolve h r s1 else returns a s1)"
  using assms by simp

theorem and_or_skip_right_operand_witness:
  "resolve bare_host (Boolean False) empty_store = returns (VBoolean False) empty_store
   \<and> resolve bare_host (Binary Or (Boolean False) (Number (Fin 7))) empty_store
       = returns (VNumber (Fin 7)) empty_store
   \<and> resolve bare_host (Binary And (Boolean False) (Variable ''a'')) empty_store
       = returns (VBoolean False) empty_store"
proof -
  have l: "resolve bare_host (Boolean False) empty_store = returns (VBoolean False) empty_store"
    by simp
  from l and_or_skip_right_operand [OF l, of "Number (Fin 7)"]
    and_or_skip_right_operand [OF l, of "Variable ''a''"]
  show ?thesis
    by (simp add: to_boolean_def)
qed

text \<open>
  The claim as stated fails: the left operand of this \<^verbatim>\<open>Or\<close> resolves to \<^verbatim>\<open>True\<close>,
  resolving its right operand fails, and the node returns \<^verbatim>\<open>True\<close>.
\<close>

theorem or_true_ignores_failing_right_operand:
  "resolve bare_host (Boolean True) empty_store = returns (VBoolean True) empty_store
   \<and> resolve bare_host (Variable ''a'') empty_store
       = throws (VariableNotDefined ''a'') empty_store
   \<and> resolve bare_host (Binary Or (Boolean True) (Variable ''a'')) empty_store
       = returns (VBoolean True) empty_store"
  by (simp add: to_boolean_def empty_store_def)

text \<open>
  Claim C2. \<^verbatim>\<open>InEquality.resolve\<close> returns what \<^verbatim>\<open>Equality.resolve\<close> returns on the
  same operands in the same state: the result of \<^verbatim>\<open>===\<close>, not its negation.
\<close>

theorem inequality_resolves_as_equality:
  "resolve h (Binary InEquality l r) s = resolve h (Binary Equality l r) s
   \<and> resolve h (Binary InEquality (Number (Fin 1)) (Number (Fin 1))) s = returns (VBoolean True) s
   \<and> resolve h (Binary InEquality (Number (Fin 1)) (Number (Fin 2))) s = returns (VBoolean False) s"
  by (simp add: number_equal_def)










text \<open>
  Claim C6. A \<^verbatim>\<open>Condition\<close> evaluates its condition and then the one branch the value
  of the condition selects. Its outcome, and the state it leaves, are those of that
  branch: the other branch is not evaluated, so its failure cannot abort the evaluation.
\<close>

theorem condition_resolves_taken_branch:
  assumes "resolve h c s = returns v s1"
  shows "resolve h (Condition c a b) s = (if to_boolean v then resolve h a s1 else resolve h b s1)"
  using assms by simp

theorem condition_resolves_taken_branch_witness:
  "resolve bare_host (Boolean True) empty_store = returns (VBoolean True) empty_store
   \<and> resolve bare_host (Variable ''a'') empty_store
       = throws (VariableNotDefined ''a'') empty_store
   \<and> resolve bare_host (Condition (Boolean True) (Number (Fin 1)) (Variable ''a'')) empty_store
       = returns (VNumber (Fin 1)) empty_store"
proof -
  have c: "resolve bare_host (Boolean True) empty_store = returns (VBoolean True) empty_store"
    by simp
  from c condition_resolves_taken_branch [OF c, of "Number (Fin 1)" "Variable ''a''"]
    resolve_undefined_variable [of bare_host "''a''"]
  show ?thesis
    by (simp add: to_boolean_def)
qed

text \<open>
  Claim C7. An \<^verbatim>\<open>Assignment\<close> whose left operand is not a \<^verbatim>\<open>Variable\<close> throws
  "Left side of assignment must be a variable" when it is resolved, before it evaluates
  anything: the state is the one it was given. The parser accepts such a node: "1 := 2"
  parses to the assignment of 2 to the number 1.
\<close>

theorem assignment_to_non_variable_throws:
  assumes "\<not> is_Variable l"
  shows "resolve h (Binary Assignment l r) s = throws LeftSideMustBeVariable s
       \<and> tryParse (expression_parser (3 + fuel)) ''1 := 2'' =
           Success (Binary Assignment (Number (Fin 1)) (Number (Fin 2))) []"
  using assms parse_assignment_to_number by simp

theorem assignment_to_non_variable_throws_witness:
  "\<not> is_Variable (Number (Fin 1))
   \<and> resolve bare_host (Binary Assignment (Number (Fin 1)) (Number (Fin 2))) empty_store
       = throws LeftSideMustBeVariable empty_store
   \<and> tryParse (expression_parser 3) ''1 := 2'' =
       Success (Binary Assignment (Number (Fin 1)) (Number (Fin 2))) []"
proof -
  have l: "\<not> is_Variable (Number (Fin 1))"
    by (simp add: is_Variable_def)
  from l assignment_to_non_variable_throws [OF l, of bare_host "Number (Fin 2)" empty_store 0]
  show ?thesis
    by simp
qed


text \<open>
  Claim C9. "4 ** 3 ** 2" parses to \<^verbatim>\<open>Exponentiate(4, Exponentiate(3, 2))\<close>, which
  resolves to 262144; the tree nested to the left resolves to 4096.
\<close>

theorem exponentiation_is_right_associative:
  "tryParse (expression_parser (4 + fuel)) ''4 ** 3 ** 2'' =
     Success (Binary Exponentiate (Number (Fin 4))
                (Binary Exponentiate (Number (Fin 3)) (Number (Fin 2)))) []
   \<and> resolve h (Binary Exponentiate (Number (Fin 4))
                  (Binary Exponentiate (Number (Fin 3)) (Number (Fin 2)))) s
       = returns (VNumber (Fin 262144)) s
   \<and> resolve h (Binary Exponentiate (Binary Exponentiate (Number (Fin 4)) (Number (Fin 3)))
                  (Number (Fin 2))) s
       = returns (VNumber (Fin 4096)) s"
  using parse_exponentiation by (simp add: to_number_def to_primitive_def is_integer_def)

text \<open>
  Claim C10. When the left operand of an \<^verbatim>\<open>Index\<close> resolves to a list and the index to
  a number that is not a position of the list (negative, too large, not an integer), or
  is a position that holds no element, the node returns \<^verbatim>\<open>undefined\<close>: it does not
  throw, and it does not clamp the index.
\<close>

theorem index_out_of_range_is_undefined:
  assumes "resolve h list s = returns (VList r xs) s1"
    and "resolve h index s1 = returns (VNumber n) s2"
    and "\<forall>k<length xs. n = Fin (of_nat k) \<longrightarrow> xs ! k = VUndefined"
  shows "resolve h (Index list index) s = returns VUndefined s2"
proof -
  have "array_get xs n = VUndefined"
  proof (cases n)
    case (Fin a)
    show ?thesis
    proof (cases "is_integer a \<and> 0 \<le> a \<and> nat \<lfloor>a\<rfloor> < length xs")
      case True
      then have "a = of_nat (nat \<lfloor>a\<rfloor>)"
        by (simp add: is_integer_def)
      with True assms(3) Fin have "xs ! nat \<lfloor>a\<rfloor> = VUndefined"
        by blast
      with True Fin show ?thesis
        by (simp add: array_get_def)
    next
      case False
      with Fin show ?thesis
        by (auto simp add: array_get_def)
    qed
  qed (simp_all add: array_get_def)
  with assms(1,2) show ?thesis
    by simp
qed

theorem index_out_of_range_is_undefined_witness:
  "resolve bare_host (Variable ''a'') list_store
     = returns (VList 0 [VNumber (Fin 1), VNumber (Fin 2), VNumber (Fin 3)]) list_store
   \<and> resolve bare_host (Number (Fin 3)) list_store = returns (VNumber (Fin 3)) list_store
   \<and> resolve bare_host (Unary Negate (Number (Fin 1))) list_store
       = returns (VNumber (Fin (- 1))) list_store
   \<and> resolve bare_host (Index (Variable ''a'') (Number (Fin 3))) list_store
       = returns VUndefined list_store
   \<and> resolve bare_host (Index (Variable ''a'') (Unary Negate (Number (Fin 1)))) list_store
       = returns VUndefined list_store
   \<and> resolve bare_host (Index (Variable ''a'') (Number (Fin 1))) sparse_store
       = returns VUndefined sparse_store"
proof -
  have a: "resolve bare_host (Variable ''a'') list_store
      = returns (VList 0 [VNumber (Fin 1), VNumber (Fin 2), VNumber (Fin 3)]) list_store"
    by (simp add: list_store_def)
  have i: "resolve bare_host (Number (Fin 3)) list_store = returns (VNumber (Fin 3)) list_store"
    by simp
  have j: "resolve bare_host (Unary Negate (Number (Fin 1))) list_store
      = returns (VNumber (Fin (- 1))) list_store"
    by (simp add: to_number_def to_primitive_def)
  have out: "\<forall>k<length [VNumber (Fin 1), VNumber (Fin 2), VNumber (Fin 3)].
      Fin 3 = Fin (of_nat k) \<longrightarrow>
      [VNumber (Fin 1), VNumber (Fin 2), VNumber (Fin 3)] ! k = VUndefined"
    by auto
  have neg: "\<forall>k<length [VNumber (Fin 1), VNumber (Fin 2), VNumber (Fin 3)].
      Fin (- 1) = Fin (of_nat k) \<longrightarrow>
      [VNumber (Fin 1), VNumber (Fin 2), VNumber (Fin 3)] ! k = VUndefined"
    by auto
  have b: "resolve bare_host (Variable ''a'') sparse_store
      = returns (VList 0 [VNumber (Fin 1), VUndefined, VNumber (Fin 3)]) sparse_store"
    by (simp add: sparse_store_def)
  have k: "resolve bare_host (Number (Fin 1)) sparse_store
      = returns (VNumber (Fin 1)) sparse_store"
    by simp
  have hole: "\<forall>k<length [VNumber (Fin 1), VUndefined, VNumber (Fin 3)].
      Fin 1 = Fin (of_nat k) \<longrightarrow>
      [VNumber (Fin 1), VUndefined, VNumber (Fin 3)] ! k = VUndefined"
    by auto
  from a i j index_out_of_range_is_undefined [OF a i out]
    index_out_of_range_is_undefined [OF a j neg]
    index_out_of_range_is_undefined [OF b k hole]
  show ?thesis
    by simp
qed

end
